theory Spec2Isabelle
  imports Main "HOL-Library.Word"
begin

unbundle bit_operations_syntax

section \<open>Bytes and strings\<close>

text \<open>
  A Go \<^verbatim>\<open>[]byte\<close> is a list of 8-bit words. A Go \<^verbatim>\<open>string\<close> is a sequence
  of bytes as well; the conversion \<^verbatim>\<open>string(b)\<close> copies the bytes unchanged (it neither
  validates nor re-encodes them), so it maps every byte to the character with the same code.
\<close>

type_synonym byte = "8 word"
type_synonym bytes = "byte list"

definition go_string :: "bytes \<Rightarrow> string" where
  "go_string bs = map (\<lambda>b. char_of (unat b)) bs"

section \<open>MySQL: decodeComInitDb\<close>

record ComInitDbPacket =
  Status :: byte
  DbName :: string

datatype com_error = DataTooShort

text \<open>
  \<^verbatim>\<open>decodeComInitDb\<close>: fewer than two bytes is the error
  \<^verbatim>\<open>"data too short for COM_INIT_DB"\<close>; otherwise byte 0 is the status and
  \<^verbatim>\<open>string(data[1:])\<close> the database name.
\<close>

definition decodeComInitDb :: "bytes \<Rightarrow> com_error + ComInitDbPacket" where
  "decodeComInitDb data =
     (if length data < 2 then Inl DataTooShort
      else Inr \<lparr>Status = data ! 0, DbName = go_string (drop 1 data)\<rparr>)"

section \<open>Go library functions used by the Postgres relay\<close>

subsection \<open>Panics, indexing and slicing\<close>

text \<open>
  The run-time panics the relay can raise. \<^verbatim>\<open>b[i]\<close> panics unless
  \<^verbatim>\<open>0 <= i < len(b)\<close>. For \<^verbatim>\<open>b[lo:hi]\<close> Go checks \<^verbatim>\<open>hi\<close> against the
  capacity of \<open>b\<close>: beyond the capacity it panics, and between length and capacity it hands
  out bytes that are not part of the buffer. The capacity is not visible to the relay (the
  buffer comes from a reader outside this file), so both ways of leaving the buffer are the
  outcome \<open>SliceBoundsOutOfRange\<close>. A type assertion \<^verbatim>\<open>msg.(*T)\<close> on a value of
  another dynamic type, or on nil, is \<open>InterfaceConversion\<close>. Go's \<^verbatim>\<open>int\<close> is taken to
  be 64 bits wide, so no index computed here overflows and \<open>int\<close> models it exactly.
\<close>

datatype panic = IndexOutOfRange | SliceBoundsOutOfRange | InterfaceConversion

definition index :: "'a list \<Rightarrow> int \<Rightarrow> panic + 'a" where
  "index b i = (if 0 \<le> i \<and> i < int (length b) then Inr (b ! nat i) else Inl IndexOutOfRange)"

definition slice :: "'a list \<Rightarrow> int \<Rightarrow> int \<Rightarrow> panic + 'a list" where
  "slice b lo hi =
     (if 0 \<le> lo \<and> lo \<le> hi \<and> hi \<le> int (length b)
      then Inr (take (nat (hi - lo)) (drop (nat lo) b))
      else Inl SliceBoundsOutOfRange)"

definition sliceFrom :: "'a list \<Rightarrow> int \<Rightarrow> panic + 'a list" where
  "sliceFrom b lo = slice b lo (int (length b))"

subsection \<open>encoding/binary: BigEndian.Uint32\<close>

text \<open>\<^verbatim>\<open>binary.BigEndian.Uint32(b)\<close> reads \<^verbatim>\<open>b[0..3]\<close> and panics on a shorter slice.\<close>

fun Uint32 :: "bytes \<Rightarrow> panic + 32 word" where
  "Uint32 (b0 # b1 # b2 # b3 # _) =
     Inr (ucast b3 OR push_bit 8 (ucast b2) OR push_bit 16 (ucast b1) OR push_bit 24 (ucast b0))"
| "Uint32 _ = Inl IndexOutOfRange"

subsection \<open>encoding/base64: StdEncoding.EncodeToString\<close>

definition encodeStd :: string where
  "encodeStd = ''ABCDEFGHIJKLMNOPQRSTUVWXYZabcdefghijklmnopqrstuvwxyz0123456789+/''"

definition b64char :: "nat \<Rightarrow> char" where
  "b64char n = encodeStd ! (n mod 64)"

fun EncodeToString :: "bytes \<Rightarrow> string" where
  "EncodeToString [] = []"
| "EncodeToString [a] =
     [b64char (unat a div 4), b64char (unat a mod 4 * 16), CHR ''='', CHR ''='']"
| "EncodeToString [a, b] =
     [b64char (unat a div 4), b64char (unat a mod 4 * 16 + unat b div 16),
      b64char (unat b mod 16 * 4), CHR ''='']"
| "EncodeToString (a # b # c # rest) =
     [b64char (unat a div 4), b64char (unat a mod 4 * 16 + unat b div 16),
      b64char (unat b mod 16 * 4 + unat c div 64), b64char (unat c mod 64)]
     @ EncodeToString rest"

subsection \<open>Conversion of a byte to a string\<close>

text \<open>
  \<^verbatim>\<open>string(b)\<close> for a single byte \<open>b\<close> is the UTF-8 encoding of the code point \<open>b\<close>: one
  character below 128 and two from 128 on.
\<close>

definition string_of_byte :: "byte \<Rightarrow> string" where
  "string_of_byte b =
     (if unat b < 128 then [char_of (unat b)]
      else [char_of (192 + unat b div 64), char_of (128 + unat b mod 64)])"

section \<open>Postgres: the protocol detector\<close>

text \<open>
  \<^verbatim>\<open>OutgoingType\<close>: false below eight bytes; otherwise the big-endian word in bytes 4 to 7
  is compared with the SSL request code 80877103 and with protocol version 3.0.
\<close>

definition ProtocolVersion :: "32 word" where
  "ProtocolVersion = 0x00030000"

definition OutgoingType :: "bytes \<Rightarrow> bool" where
  "OutgoingType buffer =
     (if length buffer < 8 then False
      else (case slice buffer 4 8 of
              Inl _ \<Rightarrow> False
            | Inr field \<Rightarrow>
                (case Uint32 field of
                   Inl _ \<Rightarrow> False
                 | Inr version \<Rightarrow> if version = 80877103 then True else version = ProtocolVersion)))"

section \<open>Postgres: data of the recorder\<close>

text \<open>
  The message structs of the pgproto3 library are only stored and copied by the relay. Each
  is represented by the bytes of the message body it was decoded from; the zero struct is
  \<open>[]\<close>. The two structs whose fields the relay reads are records: \<^verbatim>\<open>ParameterStatus\<close>
  (its \<^verbatim>\<open>Name\<close>) and \<^verbatim>\<open>DataRow\<close> (its \<^verbatim>\<open>RowValues\<close>, a slice that may be nil:
  \<open>None\<close>).
\<close>

type_synonym pgproto3 = bytes
type_synonym time = nat

record ParameterStatus =
  Name :: string
  Value :: string

record DataRow =
  RowValues :: "string list option"

text \<open>
  \<^verbatim>\<open>models.Backend\<close>, the recorded form of what the client sent. The parser's scratch value
  \<^verbatim>\<open>pg.BackendWrapper\<close> has the same fields and \<^verbatim>\<open>BodyLen\<close>; one record serves for both.
  The fields are those the relay names; the declaration itself is not part of the source
  at hand.
\<close>

record Backend =
  PacketTypes :: "string list"
  Identfier :: string
  Length :: "32 word"
  Payload :: string
  Bind :: pgproto3
  Binds :: "pgproto3 list"
  PasswordMessage :: pgproto3
  CancelRequest :: pgproto3
  Close :: pgproto3
  CopyData :: pgproto3
  CopyDone :: pgproto3
  CopyFail :: pgproto3
  Describe :: pgproto3
  Execute :: pgproto3
  Executes :: "pgproto3 list"
  Flush :: pgproto3
  FunctionCall :: pgproto3
  GssEncRequest :: pgproto3
  Parse :: pgproto3
  Parses :: "pgproto3 list"
  Query :: pgproto3
  SSlRequest :: pgproto3
  StartupMessage :: pgproto3
  SASLInitialResponse :: pgproto3
  SASLResponse :: pgproto3
  Sync :: pgproto3
  Terminate :: pgproto3
  MsgType :: byte
  AuthType :: int
  BodyLen :: int

text \<open>
  \<^verbatim>\<open>models.Frontend\<close>, the recorded form of what the server sent, and the scratch value
  \<^verbatim>\<open>pg.FrontendWrapper\<close>, which has \<^verbatim>\<open>BodyLen\<close> and \<^verbatim>\<open>ParameterStatus\<close> in addition.
\<close>

record Frontend =
  PacketTypes :: "string list"
  Identfier :: string
  Length :: "32 word"
  Payload :: string
  AuthenticationOk :: pgproto3
  AuthenticationCleartextPassword :: pgproto3
  AuthenticationMD5Password :: pgproto3
  AuthenticationGSS :: pgproto3
  AuthenticationGSSContinue :: pgproto3
  AuthenticationSASL :: pgproto3
  AuthenticationSASLContinue :: pgproto3
  AuthenticationSASLFinal :: pgproto3
  BackendKeyData :: pgproto3
  BindComplete :: pgproto3
  CloseComplete :: pgproto3
  CommandComplete :: pgproto3
  CommandCompletes :: "pgproto3 list"
  CopyData :: pgproto3
  CopyDone :: pgproto3
  CopyInResponse :: pgproto3
  CopyOutResponse :: pgproto3
  DataRow :: DataRow
  DataRows :: "DataRow list"
  EmptyQueryResponse :: pgproto3
  ErrorResponse :: pgproto3
  FunctionCallResponse :: pgproto3
  NoData :: pgproto3
  NoticeResponse :: pgproto3
  NotificationResponse :: pgproto3
  ParameterDescription :: pgproto3
  ParameterStatus :: ParameterStatus
  ParameterStatusCombined :: "ParameterStatus list"
  ParseComplete :: pgproto3
  PortalSuspended :: pgproto3
  ReadyForQuery :: pgproto3
  RowDescription :: pgproto3
  MsgType :: byte
  AuthType :: int
  BodyLen :: int

text \<open>The zero values: what a Go struct literal leaves in every field it does not name.\<close>

definition zeroBackend :: Backend where
  "zeroBackend =
     \<lparr>Backend.PacketTypes = [], Backend.Identfier = [], Backend.Length = 0,
      Backend.Payload = [], Bind = [], Binds = [], PasswordMessage = [], CancelRequest = [],
      Close = [], Backend.CopyData = [], Backend.CopyDone = [], CopyFail = [], Describe = [],
      Execute = [], Executes = [], Flush = [], FunctionCall = [], GssEncRequest = [],
      Parse = [], Parses = [], Query = [], SSlRequest = [], StartupMessage = [],
      SASLInitialResponse = [], SASLResponse = [], Sync = [], Terminate = [],
      Backend.MsgType = 0, Backend.AuthType = 0, Backend.BodyLen = 0\<rparr>"

definition zeroFrontend :: Frontend where
  "zeroFrontend =
     \<lparr>Frontend.PacketTypes = [], Frontend.Identfier = [], Frontend.Length = 0,
      Frontend.Payload = [], AuthenticationOk = [], AuthenticationCleartextPassword = [],
      AuthenticationMD5Password = [], AuthenticationGSS = [], AuthenticationGSSContinue = [],
      AuthenticationSASL = [], AuthenticationSASLContinue = [], AuthenticationSASLFinal = [],
      BackendKeyData = [], BindComplete = [], CloseComplete = [], CommandComplete = [],
      CommandCompletes = [], Frontend.CopyData = [], Frontend.CopyDone = [],
      CopyInResponse = [], CopyOutResponse = [], DataRow = \<lparr>RowValues = None\<rparr>,
      DataRows = [], EmptyQueryResponse = [], ErrorResponse = [], FunctionCallResponse = [],
      NoData = [], NoticeResponse = [], NotificationResponse = [], ParameterDescription = [],
      ParameterStatus = \<lparr>Name = [], Value = []\<rparr>, ParameterStatusCombined = [],
      ParseComplete = [], PortalSuspended = [], ReadyForQuery = [], RowDescription = [],
      Frontend.MsgType = 0, Frontend.AuthType = 0, Frontend.BodyLen = 0\<rparr>"

text \<open>
  The interface values the two decoders return. The relay asserts the dynamic type of the
  value for four client messages and one server message; every other message is
  \<open>Other...\<close>, and the nil interface is its own value.
\<close>

datatype FrontendMessage =
  NilFrontendMessage
  | PasswordMessageMsg pgproto3
  | ParseMsg pgproto3
  | BindMsg pgproto3
  | ExecuteMsg pgproto3
  | OtherFrontendMessage

datatype BackendMessage =
  NilBackendMessage
  | CommandCompleteMsg pgproto3
  | OtherBackendMessage

datatype conn_error = EOF | Timeout | ClosedConnection | OtherError

text \<open>\<^verbatim>\<open>models.Mock\<close> with its \<^verbatim>\<open>Spec\<close>, flattened.\<close>

record Mock =
  Version :: string
  MockName :: string
  Kind :: string
  PostgresRequests :: "Backend list"
  PostgresResponses :: "Frontend list"
  ReqTimestampMock :: time
  ResTimestampMock :: time
  Metadata :: "(string \<times> string) list"

text \<open>
  Functions of the repository that the relay calls and that are not part of the source at
  hand. They are parameters of the model. A decoder gets the scratch value and the frame and
  returns the scratch value it leaves behind, the message, and whether it reported an error;
  an encoder returns the bytes and whether it reported an error. The matcher returns
  \<^verbatim>\<open>matched\<close>, the recorded responses and whether it reported an error. The last three
  fields stand for the connections in TEST mode: what \<^verbatim>\<open>SetReadDeadline\<close> and a write to
  the client return, and what the real server answers to a list of buffers.
\<close>

record env =
  isStartupPacket :: "bytes \<Rightarrow> bool"
  NewBackend :: Backend
  NewFrontend :: Frontend
  DecodeStartupMessage :: "Backend \<Rightarrow> bytes \<Rightarrow> Backend"
  TranslateToReadableBackend :: "Backend \<Rightarrow> bytes \<Rightarrow> Backend \<times> FrontendMessage \<times> bool"
  TranslateToReadableResponse :: "Frontend \<Rightarrow> bytes \<Rightarrow> Frontend \<times> BackendMessage \<times> bool"
  PostgresDecoderBackend :: "Backend \<Rightarrow> bytes \<times> bool"
  PostgresDecoderFrontend :: "Frontend \<Rightarrow> bytes \<times> bool"
  PostgresDecoder :: "string \<Rightarrow> bytes \<times> bool"
  GetVersion :: string
  matchingReadablePG :: "bytes list \<Rightarrow> bool \<times> Frontend list \<times> bool"
  deadlineError :: "conn_error option"
  clientWriteError :: "bytes \<Rightarrow> conn_error option"
  destination :: "bytes list \<Rightarrow> conn_error + bytes"

section \<open>Postgres, RECORD mode: the framing loops\<close>

definition bindP :: "panic + 'a \<Rightarrow> ('a \<Rightarrow> panic + 'b) \<Rightarrow> panic + 'b" where
  "bindP m f = (case m of Inl p \<Rightarrow> Inl p | Inr x \<Rightarrow> f x)"

text \<open>One pass through a loop body either leaves the loop or goes on at a new offset.\<close>

datatype 'a iter = Break 'a | Next 'a int

text \<open>
  The decoders fill in message fields. The header fields \<^verbatim>\<open>MsgType\<close> and
  \<^verbatim>\<open>BodyLen\<close>, which the loop sets just before the call, are taken to be as the loop set
  them when the call returns.
\<close>

definition translateBackend :: "env \<Rightarrow> Backend \<Rightarrow> bytes \<Rightarrow> Backend \<times> FrontendMessage \<times> bool" where
  "translateBackend e pg frame =
     (case TranslateToReadableBackend e pg frame of
        (pg', msg, err) \<Rightarrow>
          (pg'\<lparr>Backend.MsgType := Backend.MsgType pg, Backend.BodyLen := Backend.BodyLen pg\<rparr>,
           msg, err))"

definition translateResponse :: "env \<Rightarrow> Frontend \<Rightarrow> bytes \<Rightarrow> Frontend \<times> BackendMessage \<times> bool" where
  "translateResponse e pg frame =
     (case TranslateToReadableResponse e pg frame of
        (pg', msg, err) \<Rightarrow>
          (pg'\<lparr>Frontend.MsgType := Frontend.MsgType pg, Frontend.BodyLen := Frontend.BodyLen pg\<rparr>,
           msg, err))"

text \<open>The four type assertions of the request loop, in the order of the source.\<close>

definition storePassword :: "FrontendMessage \<Rightarrow> Backend \<Rightarrow> panic + Backend" where
  "storePassword msg pg =
     (if Backend.MsgType pg = 0x70
      then (case msg of PasswordMessageMsg m \<Rightarrow> Inr (pg\<lparr>PasswordMessage := m\<rparr>)
                      | _ \<Rightarrow> Inl InterfaceConversion)
      else Inr pg)"

definition storeParse :: "FrontendMessage \<Rightarrow> Backend \<Rightarrow> panic + Backend" where
  "storeParse msg pg =
     (if Backend.MsgType pg = 0x50
      then (case msg of ParseMsg m \<Rightarrow> Inr (pg\<lparr>Parse := m, Parses := Parses pg @ [m]\<rparr>)
                      | _ \<Rightarrow> Inl InterfaceConversion)
      else Inr pg)"

definition storeBind :: "FrontendMessage \<Rightarrow> Backend \<Rightarrow> panic + Backend" where
  "storeBind msg pg =
     (if Backend.MsgType pg = 0x42
      then (case msg of BindMsg m \<Rightarrow> Inr (pg\<lparr>Bind := m, Binds := Binds pg @ [m]\<rparr>)
                      | _ \<Rightarrow> Inl InterfaceConversion)
      else Inr pg)"

definition storeExecute :: "FrontendMessage \<Rightarrow> Backend \<Rightarrow> panic + Backend" where
  "storeExecute msg pg =
     (if Backend.MsgType pg = 0x45
      then (case msg of ExecuteMsg m \<Rightarrow> Inr (pg\<lparr>Execute := m, Executes := Executes pg @ [m]\<rparr>)
                      | _ \<Rightarrow> Inl InterfaceConversion)
      else Inr pg)"

text \<open>
  The header at offset \<open>i\<close>: the tag \<^verbatim>\<open>buffer[i]\<close> and
  \<^verbatim>\<open>int(binary.BigEndian.Uint32(buffer[i+1:])) - 4\<close>.
\<close>

definition readHeader :: "bytes \<Rightarrow> int \<Rightarrow> panic + byte \<times> int" where
  "readHeader buffer i =
     bindP (index buffer i) (\<lambda>tag.
     bindP (sliceFrom buffer (i + 1)) (\<lambda>rest.
     bindP (Uint32 rest) (\<lambda>n. Inr (tag, uint n - 4))))"

text \<open>
  What the request loop does with one frame: decode it (an error of the decoder is logged
  only), store the message, note the tag.
\<close>

definition requestFrame :: "env \<Rightarrow> Backend \<Rightarrow> bytes \<Rightarrow> panic + Backend" where
  "requestFrame e pg1 frame =
     (case translateBackend e pg1 frame of
        (pg2, msg, err) \<Rightarrow>
          bindP (storePassword msg pg2) (\<lambda>pg3.
          bindP (storeParse msg pg3) (\<lambda>pg4.
          bindP (storeBind msg pg4) (\<lambda>pg5.
          bindP (storeExecute msg pg5) (\<lambda>pg6.
            Inr (pg6\<lparr>Backend.PacketTypes :=
                       Backend.PacketTypes pg6 @ [string_of_byte (Backend.MsgType pg6)]\<rparr>))))))"

text \<open>
  The body of the request loop at offset \<open>i\<close>: read the header, leave the loop when the
  frame would end beyond the buffer, otherwise handle the frame and move on by
  \<^verbatim>\<open>5 + BodyLen\<close>.
\<close>

definition requestBody :: "env \<Rightarrow> bytes \<Rightarrow> Backend \<Rightarrow> int \<Rightarrow> panic + Backend iter" where
  "requestBody e buffer pg i =
     bindP (readHeader buffer i) (\<lambda>h.
       let pg1 = pg\<lparr>Backend.MsgType := fst h, Backend.BodyLen := snd h\<rparr> in
       if int (length buffer) < i + Backend.BodyLen pg1 + 5 then Inr (Break pg1)
       else
         bindP (slice buffer i (i + Backend.BodyLen pg1 + 5)) (\<lambda>frame.
         bindP (requestFrame e pg1 frame) (\<lambda>pg7.
           Inr (Next pg7 (i + (5 + Backend.BodyLen pg7))))))"

text \<open>
  The response loop collects two lists beside the scratch value: \<open>ps\<close> and \<open>dataRows\<close>.
\<close>

type_synonym response_acc = "Frontend \<times> ParameterStatus list \<times> DataRow list"

definition storeCommandComplete :: "BackendMessage \<Rightarrow> Frontend \<Rightarrow> panic + Frontend" where
  "storeCommandComplete msg pg =
     (if Frontend.MsgType pg = 0x43
      then (case msg of
              CommandCompleteMsg m \<Rightarrow>
                Inr (pg\<lparr>CommandComplete := m, CommandCompletes := CommandCompletes pg @ [m]\<rparr>)
            | _ \<Rightarrow> Inl InterfaceConversion)
      else Inr pg)"

definition collectParameterStatus :: "Frontend \<Rightarrow> ParameterStatus list \<Rightarrow> ParameterStatus list" where
  "collectParameterStatus pg ps =
     (if Name (ParameterStatus pg) \<noteq> [] then ps @ [ParameterStatus pg] else ps)"

text \<open>
  A data row is collected when the tag is \<^verbatim>\<open>'D'\<close> and the row's values are not nil; the
  collected row holds a fresh copy of the values.
\<close>

definition collectDataRow :: "Frontend \<Rightarrow> DataRow list \<Rightarrow> DataRow list" where
  "collectDataRow pg dataRows =
     (if Frontend.MsgType pg = 0x44 \<and> RowValues (DataRow pg) \<noteq> None
      then dataRows @ [\<lparr>RowValues = Some (the (RowValues (DataRow pg)))\<rparr>]
      else dataRows)"

text \<open>
  What the response loop does with one frame at offset \<open>i\<close>. An error of the decoder leaves
  the loop; otherwise the tag is noted, the offset moves on by \<^verbatim>\<open>5 + BodyLen\<close>, and the
  parameter status, the command completion and the data row are collected.
\<close>

definition responseFrame :: "env \<Rightarrow> response_acc \<Rightarrow> bytes \<Rightarrow> int \<Rightarrow> panic + response_acc iter" where
  "responseFrame e acc frame i =
     (case acc of (pg1, ps, dataRows) \<Rightarrow>
        (case translateResponse e pg1 frame of
           (pg2, msg, err) \<Rightarrow>
             if err then Inr (Break (pg2, ps, dataRows))
             else
               let pg3 = pg2\<lparr>Frontend.PacketTypes :=
                               Frontend.PacketTypes pg2 @ [string_of_byte (Frontend.MsgType pg2)]\<rparr>;
                   i' = i + (5 + Frontend.BodyLen pg3);
                   ps' = collectParameterStatus pg3 ps
               in bindP (storeCommandComplete msg pg3) (\<lambda>pg4.
                    Inr (Next (pg4, ps', collectDataRow pg4 dataRows) i'))))"

text \<open>
  The body of the response loop. The frame is sliced without a comparison of its end with
  the length of the buffer.
\<close>

definition responseBody :: "env \<Rightarrow> bytes \<Rightarrow> response_acc \<Rightarrow> int \<Rightarrow> panic + response_acc iter" where
  "responseBody e buffer acc i =
     (case acc of (pg, ps, dataRows) \<Rightarrow>
        bindP (readHeader buffer i) (\<lambda>h.
          let pg1 = pg\<lparr>Frontend.MsgType := fst h, Frontend.BodyLen := snd h\<rparr> in
          bindP (slice buffer i (i + Frontend.BodyLen pg1 + 5)) (\<lambda>frame.
            responseFrame e (pg1, ps, dataRows) frame i)))"

section \<open>Progress of the loop bodies\<close>

lemma bindP_simps [simp]:
  "bindP (Inl p) f = Inl p"
  "bindP (Inr x) f = f x"
  by (simp_all add: bindP_def)

lemma bindP_Inr_iff:
  "bindP m f = Inr y \<longleftrightarrow> (\<exists>x. m = Inr x \<and> f x = Inr y)"
  by (cases m) simp_all

lemma storePassword_header:
  "storePassword msg pg = Inr pg' \<Longrightarrow>
     Backend.BodyLen pg' = Backend.BodyLen pg \<and> Backend.MsgType pg' = Backend.MsgType pg \<and>
     Backend.PacketTypes pg' = Backend.PacketTypes pg"
  by (auto simp: storePassword_def split: if_splits FrontendMessage.splits)

lemma storeParse_header:
  "storeParse msg pg = Inr pg' \<Longrightarrow>
     Backend.BodyLen pg' = Backend.BodyLen pg \<and> Backend.MsgType pg' = Backend.MsgType pg \<and>
     Backend.PacketTypes pg' = Backend.PacketTypes pg"
  by (auto simp: storeParse_def split: if_splits FrontendMessage.splits)

lemma storeBind_header:
  "storeBind msg pg = Inr pg' \<Longrightarrow>
     Backend.BodyLen pg' = Backend.BodyLen pg \<and> Backend.MsgType pg' = Backend.MsgType pg \<and>
     Backend.PacketTypes pg' = Backend.PacketTypes pg"
  by (auto simp: storeBind_def split: if_splits FrontendMessage.splits)

lemma storeExecute_header:
  "storeExecute msg pg = Inr pg' \<Longrightarrow>
     Backend.BodyLen pg' = Backend.BodyLen pg \<and> Backend.MsgType pg' = Backend.MsgType pg \<and>
     Backend.PacketTypes pg' = Backend.PacketTypes pg"
  by (auto simp: storeExecute_def split: if_splits FrontendMessage.splits)

lemma storeCommandComplete_header:
  "storeCommandComplete msg pg = Inr pg' \<Longrightarrow>
     Frontend.BodyLen pg' = Frontend.BodyLen pg \<and> Frontend.MsgType pg' = Frontend.MsgType pg \<and>
     Frontend.PacketTypes pg' = Frontend.PacketTypes pg \<and> DataRows pg' = DataRows pg \<and>
     DataRow pg' = DataRow pg"
  by (auto simp: storeCommandComplete_def split: if_splits BackendMessage.splits)

lemma translateBackend_header:
  "translateBackend e pg frame = (pg', msg, err) \<Longrightarrow>
     Backend.BodyLen pg' = Backend.BodyLen pg \<and> Backend.MsgType pg' = Backend.MsgType pg"
  by (auto simp: translateBackend_def split: prod.splits)

lemma translateResponse_header:
  "translateResponse e pg frame = (pg', msg, err) \<Longrightarrow>
     Frontend.BodyLen pg' = Frontend.BodyLen pg \<and> Frontend.MsgType pg' = Frontend.MsgType pg"
  by (auto simp: translateResponse_def split: prod.splits)

lemma readHeader_bound: "readHeader buffer i = Inr h \<Longrightarrow> - 4 \<le> snd h"
  by (auto simp: readHeader_def bindP_Inr_iff)

lemma requestFrame_header:
  assumes "requestFrame e pg1 frame = Inr pg7"
  shows "Backend.BodyLen pg7 = Backend.BodyLen pg1 \<and> Backend.MsgType pg7 = Backend.MsgType pg1"
proof -
  obtain pg2 msg err where tr: "translateBackend e pg1 frame = (pg2, msg, err)"
    by (cases "translateBackend e pg1 frame") auto
  with assms obtain pg3 pg4 pg5 pg6 where
    st: "storePassword msg pg2 = Inr pg3" "storeParse msg pg3 = Inr pg4"
        "storeBind msg pg4 = Inr pg5" "storeExecute msg pg5 = Inr pg6" and
    pg7: "pg7 = pg6\<lparr>Backend.PacketTypes :=
                     Backend.PacketTypes pg6 @ [string_of_byte (Backend.MsgType pg6)]\<rparr>"
    by (auto simp: requestFrame_def bindP_Inr_iff)
  from tr st pg7 show ?thesis
    using translateBackend_header [OF tr] storePassword_header [OF st(1)]
      storeParse_header [OF st(2)] storeBind_header [OF st(3)] storeExecute_header [OF st(4)]
    by simp
qed

lemma requestBody_progress:
  assumes "requestBody e buffer pg i = Inr (Next pg' i')"
  shows "i < i'"
proof -
  from assms obtain h frame where h: "readHeader buffer i = Inr h"
    and fr: "requestFrame e (pg\<lparr>Backend.MsgType := fst h, Backend.BodyLen := snd h\<rparr>) frame = Inr pg'"
    and i': "i' = i + (5 + Backend.BodyLen pg')"
    by (auto simp: requestBody_def bindP_Inr_iff Let_def split: if_splits)
  from requestFrame_header [OF fr] have "Backend.BodyLen pg' = snd h" by simp
  with readHeader_bound [OF h] i' show ?thesis by linarith
qed

lemma responseFrame_progress:
  assumes "responseFrame e (pg1, ps, dataRows) frame i = Inr (Next acc' i')"
  shows "i' = i + (5 + Frontend.BodyLen pg1)"
proof -
  obtain pg2 msg err where tr: "translateResponse e pg1 frame = (pg2, msg, err)"
    by (cases "translateResponse e pg1 frame") auto
  with assms show ?thesis
    using translateResponse_header [OF tr]
    by (auto simp: responseFrame_def bindP_Inr_iff Let_def split: if_splits)
qed

lemma responseBody_progress:
  assumes "responseBody e buffer acc i = Inr (Next acc' i')"
  shows "i < i'"
proof -
  obtain pg ps dataRows where acc: "acc = (pg, ps, dataRows)" by (cases acc) auto
  with assms obtain h frame where h: "readHeader buffer i = Inr h"
    and fr: "responseFrame e (pg\<lparr>Frontend.MsgType := fst h, Frontend.BodyLen := snd h\<rparr>, ps, dataRows)
               frame i = Inr (Next acc' i')"
    by (auto simp: responseBody_def bindP_Inr_iff Let_def)
  from responseFrame_progress [OF fr] readHeader_bound [OF h] show ?thesis by simp
qed

section \<open>Postgres, RECORD mode: the two loops\<close>

text \<open>\<^verbatim>\<open>for i := 0; i < len(bufferCopy)-5; { ... }\<close> on the request side.\<close>

function requestLoop :: "env \<Rightarrow> bytes \<Rightarrow> Backend \<Rightarrow> int \<Rightarrow> panic + Backend" where
  "requestLoop e buffer pg i =
     (if i < int (length buffer) - 5
      then (case requestBody e buffer pg i of
              Inl p \<Rightarrow> Inl p
            | Inr (Break pg') \<Rightarrow> Inr pg'
            | Inr (Next pg' i') \<Rightarrow> requestLoop e buffer pg' i')
      else Inr pg)"
  by pat_completeness auto
termination
proof (relation "measure (\<lambda>(e, buffer, pg, i). nat (int (length buffer) - i))")
  show "wf (measure (\<lambda>(e, buffer, pg, i). nat (int (length buffer) - i)))" by simp
next
  fix e :: env and buffer :: bytes and pg :: Backend and i :: int and r pg' i'
  assume "i < int (length buffer) - 5" and "requestBody e buffer pg i = Inr r"
    and "r = Next pg' i'"
  then have "i < i'" using requestBody_progress by blast
  with \<open>i < int (length buffer) - 5\<close>
  show "((e, buffer, pg', i'), (e, buffer, pg, i))
          \<in> measure (\<lambda>(e, buffer, pg, i). nat (int (length buffer) - i))"
    by simp
qed

text \<open>The same loop on the response side.\<close>

function responseLoop :: "env \<Rightarrow> bytes \<Rightarrow> response_acc \<Rightarrow> int \<Rightarrow> panic + response_acc" where
  "responseLoop e buffer acc i =
     (if i < int (length buffer) - 5
      then (case responseBody e buffer acc i of
              Inl p \<Rightarrow> Inl p
            | Inr (Break acc') \<Rightarrow> Inr acc'
            | Inr (Next acc' i') \<Rightarrow> responseLoop e buffer acc' i')
      else Inr acc)"
  by pat_completeness auto
termination
proof (relation "measure (\<lambda>(e, buffer, acc, i). nat (int (length buffer) - i))")
  show "wf (measure (\<lambda>(e, buffer, acc, i). nat (int (length buffer) - i)))" by simp
next
  fix e :: env and buffer :: bytes and acc :: response_acc and i :: int and r acc' i'
  assume "i < int (length buffer) - 5" and "responseBody e buffer acc i = Inr r"
    and "r = Next acc' i'"
  then have "i < i'" using responseBody_progress by blast
  with \<open>i < int (length buffer) - 5\<close>
  show "((e, buffer, acc', i'), (e, buffer, acc, i))
          \<in> measure (\<lambda>(e, buffer, acc, i). nat (int (length buffer) - i))"
    by simp
qed

declare requestLoop.simps [simp del] responseLoop.simps [simp del]

section \<open>Postgres, RECORD mode: one buffer from the client\<close>

text \<open>The struct literal \<open>pgMock\<close> of the request side, filled from the scratch value.\<close>

definition requestMock :: "bytes \<Rightarrow> Backend \<Rightarrow> Backend" where
  "requestMock requestBuffer pg =
     zeroBackend
       \<lparr>Backend.PacketTypes := Backend.PacketTypes pg,
        Backend.Identfier := ''ClientRequest'',
        Backend.Length := of_nat (length requestBuffer),
        Bind := Bind pg, Binds := Binds pg, PasswordMessage := PasswordMessage pg,
        CancelRequest := CancelRequest pg, Close := Close pg,
        Backend.CopyData := Backend.CopyData pg, Backend.CopyDone := Backend.CopyDone pg,
        CopyFail := CopyFail pg, Describe := Describe pg, Execute := Execute pg,
        Executes := Executes pg, Flush := Flush pg, FunctionCall := FunctionCall pg,
        GssEncRequest := GssEncRequest pg, Parse := Parse pg, Parses := Parses pg,
        Query := Query pg, SSlRequest := SSlRequest pg, StartupMessage := StartupMessage pg,
        SASLInitialResponse := SASLInitialResponse pg, SASLResponse := SASLResponse pg,
        Sync := Sync pg, Terminate := Terminate pg,
        Backend.MsgType := Backend.MsgType pg, Backend.AuthType := Backend.AuthType pg\<rparr>"

text \<open>
  The round-trip guard of the request side: re-encode \<open>pgMock\<close> (an error is logged only)
  and, when the length differs from the buffer's and the first packet type is not
  \<^verbatim>\<open>"p"\<close>, store the base64 text of the buffer. \<^verbatim>\<open>&&\<close> reads
  \<^verbatim>\<open>pgMock.PacketTypes[0]\<close> only when the lengths differ.
\<close>

definition requestGuard :: "env \<Rightarrow> bytes \<Rightarrow> string \<Rightarrow> Backend \<Rightarrow> panic + Backend" where
  "requestGuard e buffer bufStr pgMock =
     (let afterEncoded = fst (PostgresDecoderBackend e pgMock) in
      if length afterEncoded \<noteq> length buffer
      then bindP (index (Backend.PacketTypes pgMock) 0) (\<lambda>t.
             if t \<noteq> ''p'' then Inr (pgMock\<lparr>Backend.Payload := bufStr\<rparr>) else Inr pgMock)
      else Inr pgMock)"

definition startupRequest :: "string \<Rightarrow> Backend" where
  "startupRequest bufStr =
     zeroBackend\<lparr>Backend.Identfier := ''StartupRequest'', Backend.Payload := bufStr\<rparr>"

text \<open>
  The entries a client buffer adds to \<open>pgRequests\<close>: nothing for an empty buffer; the
  structural entry when the buffer is no startup packet and longer than five bytes; the
  startup entry when it is a startup packet.
\<close>

definition clientEntries :: "env \<Rightarrow> bytes \<Rightarrow> bytes \<Rightarrow> panic + Backend list" where
  "clientEntries e requestBuffer buffer =
     (let bufStr = EncodeToString buffer in
      if bufStr \<noteq> [] then
        bindP (if \<not> isStartupPacket e buffer \<and> length buffer > 5
               then bindP (requestLoop e buffer (NewBackend e) 0) (\<lambda>pg.
                    bindP (requestGuard e buffer bufStr (requestMock requestBuffer pg)) (\<lambda>pgMock.
                      Inr [pgMock]))
               else Inr [])
          (\<lambda>structural.
             Inr (structural @ (if isStartupPacket e buffer then [startupRequest bufStr] else [])))
      else Inr [])"

section \<open>Postgres, RECORD mode: one buffer from the server\<close>

definition responseMock :: "bytes \<Rightarrow> Frontend \<Rightarrow> Frontend" where
  "responseMock requestBuffer pg =
     zeroFrontend
       \<lparr>Frontend.PacketTypes := Frontend.PacketTypes pg,
        Frontend.Identfier := ''ServerResponse'',
        Frontend.Length := of_nat (length requestBuffer),
        AuthenticationOk := AuthenticationOk pg,
        AuthenticationCleartextPassword := AuthenticationCleartextPassword pg,
        AuthenticationMD5Password := AuthenticationMD5Password pg,
        AuthenticationGSS := AuthenticationGSS pg,
        AuthenticationGSSContinue := AuthenticationGSSContinue pg,
        AuthenticationSASL := AuthenticationSASL pg,
        AuthenticationSASLContinue := AuthenticationSASLContinue pg,
        AuthenticationSASLFinal := AuthenticationSASLFinal pg,
        BackendKeyData := BackendKeyData pg, BindComplete := BindComplete pg,
        CloseComplete := CloseComplete pg, CommandComplete := CommandComplete pg,
        CommandCompletes := CommandCompletes pg,
        Frontend.CopyData := Frontend.CopyData pg, Frontend.CopyDone := Frontend.CopyDone pg,
        CopyInResponse := CopyInResponse pg, CopyOutResponse := CopyOutResponse pg,
        DataRow := DataRow pg, DataRows := DataRows pg,
        EmptyQueryResponse := EmptyQueryResponse pg, ErrorResponse := ErrorResponse pg,
        FunctionCallResponse := FunctionCallResponse pg, NoData := NoData pg,
        NoticeResponse := NoticeResponse pg, NotificationResponse := NotificationResponse pg,
        ParameterDescription := ParameterDescription pg,
        ParameterStatusCombined := ParameterStatusCombined pg,
        ParseComplete := ParseComplete pg, PortalSuspended := PortalSuspended pg,
        ReadyForQuery := ReadyForQuery pg, RowDescription := RowDescription pg,
        Frontend.MsgType := Frontend.MsgType pg, Frontend.AuthType := Frontend.AuthType pg\<rparr>"

text \<open>After the loop the two collected lists go into the scratch value when not empty.\<close>

definition storeCollected :: "response_acc \<Rightarrow> Frontend" where
  "storeCollected acc =
     (case acc of (pg, ps, dataRows) \<Rightarrow>
        let pg1 = (if length ps > 0 then pg\<lparr>ParameterStatusCombined := ps\<rparr> else pg)
        in (if length dataRows > 0 then pg1\<lparr>DataRows := dataRows\<rparr> else pg1))"

text \<open>
  The round-trip guard of the response side. \<^verbatim>\<open>||\<close> reads the data rows only when its
  left operand is false, and the left operand reads \<^verbatim>\<open>pgMock.PacketTypes[0]\<close> only when
  the lengths differ.
\<close>

definition responseGuard :: "env \<Rightarrow> bytes \<Rightarrow> string \<Rightarrow> Frontend \<Rightarrow> panic + Frontend" where
  "responseGuard e buffer bufStr pgMock =
     (let afterEncoded = fst (PostgresDecoderFrontend e pgMock) in
      bindP (if length afterEncoded \<noteq> length buffer
             then bindP (index (Frontend.PacketTypes pgMock) 0) (\<lambda>t. Inr (t \<noteq> ''R''))
             else Inr False)
        (\<lambda>mismatch.
           if mismatch \<or> length (DataRows pgMock) > 0
           then Inr (pgMock\<lparr>Frontend.Payload := bufStr\<rparr>)
           else Inr pgMock))"

definition rawResponse :: "string \<Rightarrow> Frontend" where
  "rawResponse bufStr = zeroFrontend\<lparr>Frontend.Payload := bufStr\<rparr>"

text \<open>
  The entries a server buffer adds to \<open>pgResponses\<close>: nothing for an empty buffer; the
  structural entry for a buffer that is no startup packet, longer than five bytes and not
  \<^verbatim>\<open>"Tg=="\<close> in base64; the raw entry for \<^verbatim>\<open>"Tg=="\<close> and for at most five bytes.
\<close>

definition serverEntries :: "env \<Rightarrow> bytes \<Rightarrow> bytes \<Rightarrow> panic + Frontend list" where
  "serverEntries e requestBuffer buffer =
     (let bufStr = EncodeToString buffer in
      if bufStr \<noteq> [] then
        bindP (if \<not> isStartupPacket e buffer \<and> length buffer > 5 \<and> bufStr \<noteq> ''Tg==''
               then bindP (responseLoop e buffer (NewFrontend e, [], []) 0) (\<lambda>acc.
                    bindP (responseGuard e buffer bufStr
                             (responseMock requestBuffer (storeCollected acc))) (\<lambda>pgMock.
                      Inr [pgMock]))
               else Inr [])
          (\<lambda>structural.
             Inr (structural @
                  (if bufStr = ''Tg=='' \<or> length buffer \<le> 5 then [rawResponse bufStr] else [])))
      else Inr [])"

section \<open>Postgres, RECORD mode: the relay loop\<close>

text \<open>
  The variables of \<^verbatim>\<open>encodePostgresOutgoing\<close> and what it has done to the outside: the
  mocks handed to \<^verbatim>\<open>AppendMocks\<close> (a failure of the store is logged only), the buffers
  written to either connection, and whether it closed the connections.
\<close>

record relay =
  pgRequests :: "Backend list"
  pgResponses :: "Frontend list"
  isPreviousChunkRequest :: bool
  reqTimestampMock :: time
  resTimestampMock :: time
  appended :: "Mock list"
  destWritten :: "bytes list"
  clientWritten :: "bytes list"
  connsClosed :: bool

text \<open>
  What the \<^verbatim>\<open>select\<close> can receive: a signal, a buffer from the client (with the result of
  forwarding it), a buffer from the server (with the result of forwarding it and the two
  readings of the clock), or an error of a reader.
\<close>

text \<open>
  An outcome keeps the variables as they were when the function stopped: still running,
  returned (with the error, if any), or stopped by a panic.
\<close>

datatype outcome = Running relay | Returned "conn_error option" relay | Panicked panic relay

definition relayOf :: "outcome \<Rightarrow> relay" where
  "relayOf out = (case out of Running s \<Rightarrow> s | Returned _ s \<Rightarrow> s | Panicked _ s \<Rightarrow> s)"

datatype event =
  Signal
  | ClientBuffer bytes "conn_error option"
  | DestBuffer bytes "conn_error option" time time
  | ReaderError conn_error

definition flushCondition :: "relay \<Rightarrow> bool" where
  "flushCondition s \<longleftrightarrow>
     \<not> isPreviousChunkRequest s \<and> length (pgRequests s) > 0 \<and> length (pgResponses s) > 0"

definition theMock :: "env \<Rightarrow> relay \<Rightarrow> Mock" where
  "theMock e s =
     \<lparr>Version = GetVersion e, MockName = ''mocks'', Kind = ''Postgres'',
      PostgresRequests = pgRequests s, PostgresResponses = pgResponses s,
      ReqTimestampMock = reqTimestampMock s, ResTimestampMock = resTimestampMock s,
      Metadata = [(''type'', ''config'')]\<rparr>"

text \<open>The block both flush sites share: hand the mock to the store, empty both lists.\<close>

definition flush :: "env \<Rightarrow> relay \<Rightarrow> relay" where
  "flush e s = s\<lparr>appended := appended s @ [theMock e s], pgRequests := [], pgResponses := []\<rparr>"

definition onSignal :: "env \<Rightarrow> relay \<Rightarrow> outcome" where
  "onSignal e s =
     (if flushCondition s then Returned None ((flush e s)\<lparr>connsClosed := True\<rparr>)
      else Running s)"

definition onClientBuffer :: "env \<Rightarrow> bytes \<Rightarrow> relay \<Rightarrow> bytes \<Rightarrow> conn_error option \<Rightarrow> outcome" where
  "onClientBuffer e requestBuffer s buffer werr =
     (case werr of
        Some err \<Rightarrow> Returned (Some err) s
      | None \<Rightarrow>
          let s1 = s\<lparr>destWritten := destWritten s @ [buffer]\<rparr>;
              s2 = (if flushCondition s1 then flush e s1 else s1)
          in (case clientEntries e requestBuffer buffer of
                Inl p \<Rightarrow> Panicked p s2
              | Inr entries \<Rightarrow>
                  Running (s2\<lparr>pgRequests := pgRequests s2 @ entries,
                              isPreviousChunkRequest := True\<rparr>)))"

definition onDestBuffer ::
  "env \<Rightarrow> bytes \<Rightarrow> relay \<Rightarrow> bytes \<Rightarrow> conn_error option \<Rightarrow> time \<Rightarrow> time \<Rightarrow> outcome" where
  "onDestBuffer e requestBuffer s buffer werr t1 t2 =
     (let s1 = (if isPreviousChunkRequest s then s\<lparr>reqTimestampMock := t1\<rparr> else s) in
      case werr of
        Some err \<Rightarrow> Returned (Some err) s1
      | None \<Rightarrow>
          let s2 = s1\<lparr>clientWritten := clientWritten s1 @ [buffer]\<rparr>
          in (case serverEntries e requestBuffer buffer of
                Inl p \<Rightarrow> Panicked p s2
              | Inr entries \<Rightarrow>
                  Running (s2\<lparr>pgResponses := pgResponses s2 @ entries,
                              resTimestampMock := t2,
                              isPreviousChunkRequest := False\<rparr>)))"

fun step :: "env \<Rightarrow> bytes \<Rightarrow> relay \<Rightarrow> event \<Rightarrow> outcome" where
  "step e requestBuffer s Signal = onSignal e s"
| "step e requestBuffer s (ClientBuffer buffer werr) = onClientBuffer e requestBuffer s buffer werr"
| "step e requestBuffer s (DestBuffer buffer werr t1 t2) =
     onDestBuffer e requestBuffer s buffer werr t1 t2"
| "step e requestBuffer s (ReaderError err) = Returned (Some err) s"

text \<open>
  The loop over the events that arrive. When the events at hand are used up the relay is
  still running, waiting in \<^verbatim>\<open>select\<close>.
\<close>

fun relayLoop :: "env \<Rightarrow> bytes \<Rightarrow> relay \<Rightarrow> event list \<Rightarrow> outcome" where
  "relayLoop e requestBuffer s [] = Running s"
| "relayLoop e requestBuffer s (ev # evs) =
     (case step e requestBuffer s ev of
        Running s' \<Rightarrow> relayLoop e requestBuffer s' evs
      | out \<Rightarrow> out)"

text \<open>
  Before the loop: the first buffer of the session is decoded as a startup message (an error
  is logged only), recorded with the identifier \<^verbatim>\<open>"StartupRequest"\<close>, its base64 text and
  the fields of the scratch value, and forwarded to the server.
\<close>

definition firstRequest :: "bytes \<Rightarrow> string \<Rightarrow> Backend \<Rightarrow> Backend" where
  "firstRequest requestBuffer bufStr pg =
     zeroBackend
       \<lparr>Backend.PacketTypes := Backend.PacketTypes pg,
        Backend.Identfier := ''StartupRequest'',
        Backend.Length := of_nat (length requestBuffer),
        Backend.Payload := bufStr,
        Bind := Bind pg, PasswordMessage := PasswordMessage pg,
        CancelRequest := CancelRequest pg, Close := Close pg,
        Backend.CopyData := Backend.CopyData pg, Backend.CopyDone := Backend.CopyDone pg,
        CopyFail := CopyFail pg, Describe := Describe pg, Execute := Execute pg,
        Flush := Flush pg, FunctionCall := FunctionCall pg,
        GssEncRequest := GssEncRequest pg, Parse := Parse pg,
        Query := Query pg, SSlRequest := SSlRequest pg, StartupMessage := StartupMessage pg,
        SASLInitialResponse := SASLInitialResponse pg, SASLResponse := SASLResponse pg,
        Sync := Sync pg, Terminate := Terminate pg,
        Backend.MsgType := Backend.MsgType pg, Backend.AuthType := Backend.AuthType pg\<rparr>"

definition initialRelay :: "env \<Rightarrow> bytes \<Rightarrow> time \<Rightarrow> relay" where
  "initialRelay e requestBuffer now =
     (let bufStr = EncodeToString requestBuffer;
          pg = DecodeStartupMessage e (NewBackend e) requestBuffer
      in \<lparr>pgRequests = (if bufStr \<noteq> [] then [firstRequest requestBuffer bufStr pg] else []),
          pgResponses = [], isPreviousChunkRequest = False,
          reqTimestampMock = now, resTimestampMock = 0,
          appended = [], destWritten = [requestBuffer], clientWritten = [],
          connsClosed = False\<rparr>)"

definition encodePostgresOutgoing ::
  "env \<Rightarrow> bytes \<Rightarrow> conn_error option \<Rightarrow> time \<Rightarrow> event list \<Rightarrow> outcome" where
  "encodePostgresOutgoing e requestBuffer werr now evs =
     (case werr of
        Some err \<Rightarrow> Returned (Some err) ((initialRelay e requestBuffer now)\<lparr>destWritten := []\<rparr>)
      | None \<Rightarrow> relayLoop e requestBuffer (initialRelay e requestBuffer now) evs)"

section \<open>Postgres, TEST mode\<close>

text \<open>
  What \<^verbatim>\<open>decodePostgresOutgoing\<close> does to the outside, in order: the read deadline it sets
  (in milliseconds from now), the calls of the matcher, and the buffers it writes.
\<close>

datatype action =
  SetReadDeadline nat
  | Match "bytes list"
  | WriteDest bytes
  | WriteClient bytes

text \<open>
  One call of \<^verbatim>\<open>util.ReadBytes(clientConn)\<close>: the buffer, the error, and what
  \<^verbatim>\<open>IsUserAppTerminateInitiated\<close> answers right after it.
\<close>

datatype read = Read bytes "conn_error option" bool

datatype test_error = ConnError conn_error | MatchError | DecodeError

text \<open>
  The inner loop. An error that is no timeout is returned unless the application is being
  terminated; a timeout leaves the loop; every other read appends its buffer. When the
  reads at hand are used up the loop is still waiting.
\<close>

text \<open>
  (\<open>requests\<close> is the variable \<^verbatim>\<open>pgRequests\<close> of this function and \<open>responses\<close> its
  \<^verbatim>\<open>pgResponses\<close>.)
\<close>

datatype burst = Complete "bytes list" "read list" | Fatal conn_error | Pending "bytes list"

fun readBurst :: "bytes list \<Rightarrow> read list \<Rightarrow> burst" where
  "readBurst requests [] = Pending requests"
| "readBurst requests (Read buffer err terminating # rs) =
     (case err of
        None \<Rightarrow> readBurst (requests @ [buffer]) rs
      | Some Timeout \<Rightarrow> Complete requests rs
      | Some other \<Rightarrow>
          if \<not> terminating then Fatal other else readBurst (requests @ [buffer]) rs)"

text \<open>
  The bytes for one recorded response: the decoded payload, or the re-encoded entry when
  it has packet types and no payload.
\<close>

definition replayEncode :: "env \<Rightarrow> Frontend \<Rightarrow> bytes \<times> bool" where
  "replayEncode e response =
     (let r = PostgresDecoder e (Frontend.Payload response) in
      if length (Frontend.PacketTypes response) > 0 \<and> length (Frontend.Payload response) = 0
      then PostgresDecoderFrontend e response
      else r)"

text \<open>The loop over the matched responses; it returns at the first error.\<close>

fun writeResponses :: "env \<Rightarrow> Frontend list \<Rightarrow> action list \<times> test_error option" where
  "writeResponses e [] = ([], None)"
| "writeResponses e (response # rest) =
     (case replayEncode e response of
        (encoded, err) \<Rightarrow>
          if err then ([], Some DecodeError)
          else (case clientWriteError e encoded of
                  Some werr \<Rightarrow> ([WriteClient encoded], Some (ConnError werr))
                | None \<Rightarrow>
                    (case writeResponses e rest of
                       (acts, res) \<Rightarrow> (WriteClient encoded # acts, res))))"

text \<open>
  Modelled from the spec: \<^verbatim>\<open>util.Passthrough\<close>, which is not part of the source at hand.
  The spec says of it: pass the entire captured request burst through to the real
  destination verbatim and relay its real reply back untouched. So every buffer is written
  to the destination in order and unchanged, and the reply is written to the client
  unchanged. A failure of the destination is returned.
\<close>

definition Passthrough :: "env \<Rightarrow> bytes list \<Rightarrow> action list \<times> conn_error option" where
  "Passthrough e requests =
     (case destination e requests of
        Inl err \<Rightarrow> (map WriteDest requests, Some err)
      | Inr reply \<Rightarrow> (map WriteDest requests @ [WriteClient reply], None))"

text \<open>
  The outer loop after the inner one: nothing for an empty list; otherwise the matcher,
  then the passthrough (which keeps the list) or the replay (which empties it). The result
  is the error that ends the function or the list for the next round.
\<close>

definition endOfBurst :: "env \<Rightarrow> bytes list \<Rightarrow> action list \<times> (test_error + bytes list)" where
  "endOfBurst e requests =
     (if length requests = 0 then ([], Inr requests)
      else (case matchingReadablePG e requests of
              (matched, responses, err) \<Rightarrow>
                if err then ([Match requests], Inl MatchError)
                else if \<not> matched
                then (case Passthrough e requests of
                        (acts, Some perr) \<Rightarrow> (Match requests # acts, Inl (ConnError perr))
                      | (acts, None) \<Rightarrow> (Match requests # acts, Inr requests))
                else (case writeResponses e responses of
                        (acts, Some werr) \<Rightarrow> (Match requests # acts, Inl werr)
                      | (acts, None) \<Rightarrow> (Match requests # acts, Inr []))))"

datatype test_outcome = Waiting "bytes list" | Failed test_error

lemma readBurst_shorter:
  "readBurst requests rs = Complete requests' rs' \<Longrightarrow> length rs' < length rs"
proof (induction requests rs rule: readBurst.induct)
  case (1 requests)
  then show ?case by simp
next
  case (2 requests buffer err terminating rs)
  then show ?case
    by (cases err) (auto split: conn_error.splits if_splits)
qed

text \<open>
  The outer loop of \<^verbatim>\<open>decodePostgresOutgoing\<close>: set the deadline ten milliseconds ahead,
  read a burst, handle it, and go round again.
\<close>

function replayLoop :: "env \<Rightarrow> bytes list \<Rightarrow> read list \<Rightarrow> action list \<times> test_outcome" where
  "replayLoop e requests rs =
     (case deadlineError e of
        Some derr \<Rightarrow> ([SetReadDeadline 10], Failed (ConnError derr))
      | None \<Rightarrow>
          (case readBurst requests rs of
             Fatal err \<Rightarrow> ([SetReadDeadline 10], Failed (ConnError err))
           | Pending requests' \<Rightarrow> ([SetReadDeadline 10], Waiting requests')
           | Complete requests' rs' \<Rightarrow>
               (case endOfBurst e requests' of
                  (acts, Inl err) \<Rightarrow> (SetReadDeadline 10 # acts, Failed err)
                | (acts, Inr requests'') \<Rightarrow>
                    (case replayLoop e requests'' rs' of
                       (acts', out) \<Rightarrow> (SetReadDeadline 10 # acts @ acts', out)))))"
  by pat_completeness auto
termination
proof (relation "measure (\<lambda>(e, requests, rs). length rs)")
  show "wf (measure (\<lambda>(e, requests, rs). length rs))" by simp
next
  fix e :: env and requests :: "bytes list" and rs rs' :: "read list"
    and requests' requests'' :: "bytes list" and x acts y
  assume "readBurst requests rs = Complete requests' rs'"
  then show "((e, requests'', rs'), (e, requests, rs)) \<in> measure (\<lambda>(e, requests, rs). length rs)"
    by (simp add: readBurst_shorter)
qed

declare replayLoop.simps [simp del]

definition decodePostgresOutgoing :: "env \<Rightarrow> bytes \<Rightarrow> read list \<Rightarrow> action list \<times> test_outcome" where
  "decodePostgresOutgoing e requestBuffer rs = replayLoop e [requestBuffer] rs"

section \<open>An instance of the parameters\<close>

text \<open>
  A small instance of the functions that are parameters of the model, for running the model
  on concrete buffers. Its decoders keep the body of a frame (the bytes after the five
  header bytes) in the field of the message; its encoder for the server side writes the
  data rows only, so it does not reproduce any other message; the matcher knows one request,
  a buffer that starts with \<^verbatim>\<open>'Q'\<close>; the real server echoes what it is sent.
\<close>

definition putFrame :: "byte \<Rightarrow> bytes \<Rightarrow> bytes" where
  "putFrame tag body =
     (let n = length body + 4
      in tag # [of_nat (n div 16777216), of_nat (n div 65536), of_nat (n div 256), of_nat n] @ body)"

definition bytes_of_string :: "string \<Rightarrow> bytes" where
  "bytes_of_string str = map (\<lambda>c. of_nat (of_char c)) str"

definition exampleTranslateBackend :: "Backend \<Rightarrow> bytes \<Rightarrow> Backend \<times> FrontendMessage \<times> bool" where
  "exampleTranslateBackend pg frame =
     (let body = drop 5 frame in
      if Backend.MsgType pg = 0x70 then (pg, PasswordMessageMsg body, False)
      else if Backend.MsgType pg = 0x50 then (pg, ParseMsg body, False)
      else if Backend.MsgType pg = 0x42 then (pg, BindMsg body, False)
      else if Backend.MsgType pg = 0x45 then (pg, ExecuteMsg body, False)
      else if Backend.MsgType pg = 0x51 then (pg\<lparr>Query := body\<rparr>, OtherFrontendMessage, False)
      else (pg, NilFrontendMessage, True))"

definition exampleTranslateResponse :: "Frontend \<Rightarrow> bytes \<Rightarrow> Frontend \<times> BackendMessage \<times> bool" where
  "exampleTranslateResponse pg frame =
     (let body = drop 5 frame in
      if Frontend.MsgType pg = 0x43 then (pg, CommandCompleteMsg body, False)
      else if Frontend.MsgType pg = 0x44
        then (pg\<lparr>DataRow := \<lparr>RowValues = Some [go_string body]\<rparr>\<rparr>, OtherBackendMessage, False)
      else if Frontend.MsgType pg = 0x52
        then (pg\<lparr>AuthenticationOk := body\<rparr>, OtherBackendMessage, False)
      else if Frontend.MsgType pg = 0x5A
        then (pg\<lparr>ReadyForQuery := body\<rparr>, OtherBackendMessage, False)
      else (pg, NilBackendMessage, True))"

definition exampleEncodeRow :: "DataRow \<Rightarrow> bytes" where
  "exampleEncodeRow row =
     (case RowValues row of
        None \<Rightarrow> []
      | Some vs \<Rightarrow> putFrame 0x44 (concat (map bytes_of_string vs)))"

definition exampleMatcher :: "bytes list \<Rightarrow> bool \<times> Frontend list \<times> bool" where
  "exampleMatcher requests =
     (if take 1 (concat requests) = [0x51]
      then (True,
            [zeroFrontend\<lparr>Frontend.Payload := ''Wg==''\<rparr>,
             zeroFrontend\<lparr>Frontend.PacketTypes := [''D''],
                          DataRows := [\<lparr>RowValues = Some [''1'']\<rparr>]\<rparr>],
            False)
      else (False, [], False))"

definition exampleEnv :: env where
  "exampleEnv =
     \<lparr>isStartupPacket = OutgoingType,
      NewBackend = zeroBackend,
      NewFrontend = zeroFrontend,
      DecodeStartupMessage = (\<lambda>pg buffer. pg),
      TranslateToReadableBackend = exampleTranslateBackend,
      TranslateToReadableResponse = exampleTranslateResponse,
      PostgresDecoderBackend = (\<lambda>pgMock. ([], False)),
      PostgresDecoderFrontend = (\<lambda>pgMock. (concat (map exampleEncodeRow (DataRows pgMock)), False)),
      PostgresDecoder = (\<lambda>payload. (bytes_of_string payload, False)),
      GetVersion = ''api.keploy.io/v1beta1'',
      matchingReadablePG = exampleMatcher,
      deadlineError = None,
      clientWriteError = (\<lambda>buffer. None),
      destination = (\<lambda>requests. Inr (concat requests))\<rparr>"

section \<open>Properties\<close>

text \<open>
  C9: decodeComInitDb returns the structural error for every input shorter than two bytes
  (so for every single-byte input), and succeeds on every input of at least two bytes with
  Status the first byte and DbName the remaining bytes read as a string; decoding
  [0x02, 'm', 'y', 'd', 'b'] gives Status 0x02 and DbName "mydb".
\<close>

theorem decodeComInitDb_spec:
  "(length data < 2 \<longrightarrow> decodeComInitDb data = Inl DataTooShort) \<and>
   decodeComInitDb [b] = Inl DataTooShort \<and>
   (2 \<le> length data \<longrightarrow>
      decodeComInitDb data = Inr \<lparr>Status = hd data, DbName = go_string (tl data)\<rparr>) \<and>
   decodeComInitDb [0x02, 0x6D, 0x79, 0x64, 0x62] = Inr \<lparr>Status = 0x02, DbName = ''mydb''\<rparr>"
proof -
  have short: "length data < 2 \<longrightarrow> decodeComInitDb data = Inl DataTooShort"
    by (simp add: decodeComInitDb_def)
  have one: "decodeComInitDb [b] = Inl DataTooShort"
    by (simp add: decodeComInitDb_def)
  have long: "2 \<le> length data \<longrightarrow>
      decodeComInitDb data = Inr \<lparr>Status = hd data, DbName = go_string (tl data)\<rparr>"
    by (cases data) (simp_all add: decodeComInitDb_def drop_Suc)
  have ex: "decodeComInitDb [0x02, 0x6D, 0x79, 0x64, 0x62] =
      Inr \<lparr>Status = 0x02, DbName = ''mydb''\<rparr>"
    by code_simp
  from short one long ex show ?thesis by blast
qed

theorem decodeComInitDb_spec_witness:
  "decodeComInitDb [0x07] = Inl DataTooShort \<and>
   decodeComInitDb [0x02, 0x41] = Inr \<lparr>Status = 0x02, DbName = ''A''\<rparr>"
proof -
  have a: "decodeComInitDb [0x07] = Inl DataTooShort"
    using decodeComInitDb_spec [of "[0x07]" 0] by simp
  have b: "decodeComInitDb [0x02, 0x41] = Inr \<lparr>Status = 0x02, DbName = ''A''\<rparr>"
    using decodeComInitDb_spec [of "[0x02, 0x41]" 0] by (simp add: go_string_def char_of_def bit_0)
  from a b show ?thesis by simp
qed

section \<open>Properties of the framing loops\<close>

lemma EncodeToString_length: "length (EncodeToString bs) = 4 * ((length bs + 2) div 3)"
  by (induction bs rule: EncodeToString.induct) (simp_all, presburger?)

lemma EncodeToString_Nil_iff [simp]: "EncodeToString bs = [] \<longleftrightarrow> bs = []"
  by (cases bs rule: EncodeToString.cases) simp_all

lemma requestLoop_short: "length buffer \<le> 5 \<Longrightarrow> requestLoop e buffer pg 0 = Inr pg"
  by (simp add: requestLoop.simps)

lemma responseLoop_short: "length buffer \<le> 5 \<Longrightarrow> responseLoop e buffer acc 0 = Inr acc"
  by (simp add: responseLoop.simps)

text \<open>
  C3: for every buffer shorter than five bytes, the size of a frame header, the framing
  loops consume no frame and neither fails nor panics, on the request side and on the
  response side: each loop returns its scratch value as it got it, a client buffer adds no
  structural entry (only the startup entry, when the buffer is one), and a server buffer is
  stored raw.
\<close>

theorem short_buffer_no_frames:
  assumes "length buffer < 5"
  shows "requestLoop e buffer pg 0 = Inr pg \<and>
         responseLoop e buffer acc 0 = Inr acc \<and>
         clientEntries e requestBuffer buffer =
           Inr (if buffer \<noteq> [] \<and> isStartupPacket e buffer
                then [startupRequest (EncodeToString buffer)] else []) \<and>
         serverEntries e requestBuffer buffer =
           Inr (if buffer \<noteq> [] then [rawResponse (EncodeToString buffer)] else [])"
proof -
  from assms have le: "length buffer \<le> 5" by simp
  have c: "clientEntries e requestBuffer buffer =
           Inr (if buffer \<noteq> [] \<and> isStartupPacket e buffer
                then [startupRequest (EncodeToString buffer)] else [])"
    using assms by (simp add: clientEntries_def Let_def)
  have s: "serverEntries e requestBuffer buffer =
           Inr (if buffer \<noteq> [] then [rawResponse (EncodeToString buffer)] else [])"
    using assms by (simp add: serverEntries_def Let_def)
  from requestLoop_short [OF le] responseLoop_short [OF le] c s show ?thesis by simp
qed

theorem short_buffer_no_frames_witness:
  "length [0x51, 0, 0 :: byte] < 5 \<and>
   requestLoop exampleEnv [0x51, 0, 0] zeroBackend 0 = Inr zeroBackend \<and>
   responseLoop exampleEnv [0x51, 0, 0] (zeroFrontend, [], []) 0 = Inr (zeroFrontend, [], []) \<and>
   clientEntries exampleEnv [] [0x51, 0, 0] = Inr [] \<and>
   serverEntries exampleEnv [] [0x51, 0, 0] = Inr [rawResponse ''UQAA'']"
proof -
  have h: "length [0x51, 0, 0 :: byte] < 5" by simp
  have st: "\<not> isStartupPacket exampleEnv [0x51, 0, 0]"
    by (simp add: exampleEnv_def OutgoingType_def)
  have enc: "EncodeToString [0x51, 0, 0] = ''UQAA''" by code_simp
  from short_buffer_no_frames [OF h, of exampleEnv zeroBackend "(zeroFrontend, [], [])" "[]"] st enc h
  show ?thesis by simp
qed

text \<open>
  C2: a frame whose declared length exceeds what is left of the buffer. On the buffer
  'C' 0 0 0 100 'x' (six bytes, declared length 100) the response loop slices
  \<^verbatim>\<open>buffer[0:101]\<close>, past the end of the buffer, whatever the decoder is; the request
  loop on the same buffer leaves the loop before the frame, with no packet type noted.
\<close>

theorem response_loop_slices_past_end:
  "responseLoop e [0x43, 0, 0, 0, 100, 0x78] (pg, ps, dataRows) 0 = Inl SliceBoundsOutOfRange \<and>
   requestLoop e [0x43, 0, 0, 0, 100, 0x78] pg' 0 =
     Inr (pg'\<lparr>Backend.MsgType := 0x43, Backend.BodyLen := 96\<rparr>) \<and>
   serverEntries exampleEnv [] [0x43, 0, 0, 0, 100, 0x78] = Inl SliceBoundsOutOfRange"
proof -
  have r: "responseLoop e [0x43, 0, 0, 0, 100, 0x78] (pg, ps, dataRows) 0 = Inl SliceBoundsOutOfRange" for e pg ps dataRows
    by (simp add: responseLoop.simps responseBody_def readHeader_def index_def sliceFrom_def
        slice_def)
  have q: "requestLoop e [0x43, 0, 0, 0, 100, 0x78] pg' 0 =
     Inr (pg'\<lparr>Backend.MsgType := 0x43, Backend.BodyLen := 96\<rparr>)"
    by (simp add: requestLoop.simps requestBody_def readHeader_def index_def sliceFrom_def
        slice_def)
  have enc: "EncodeToString [0x43, 0, 0, 0, 100, 0x78] = ''QwAAAGR4''" by code_simp
  have s: "serverEntries exampleEnv [] [0x43, 0, 0, 0, 100, 0x78] = Inl SliceBoundsOutOfRange"
    by (simp add: serverEntries_def Let_def enc r exampleEnv_def OutgoingType_def)
  from r q s show ?thesis by simp
qed

text \<open>
  The request loop, started at a non-negative offset, never indexes or slices outside the
  buffer: the only panic it can raise is a failed type assertion.
\<close>

lemma Uint32_ok: "4 \<le> length xs \<Longrightarrow> \<exists>v. Uint32 xs = Inr v"
  by (cases xs rule: Uint32.cases) auto

lemma readHeader_ok:
  "0 \<le> i \<Longrightarrow> i < int (length buffer) - 5 \<Longrightarrow> \<exists>h. readHeader buffer i = Inr h"
proof -
  assume a: "0 \<le> i" "i < int (length buffer) - 5"
  then have "4 \<le> length (drop (nat (i + 1)) buffer)" by simp
  then obtain v where "Uint32 (drop (nat (i + 1)) buffer) = Inr v"
    using Uint32_ok by blast
  with a show ?thesis
    by (simp add: readHeader_def index_def sliceFrom_def slice_def)
qed

lemma requestBody_panic:
  assumes "0 \<le> i" "i < int (length buffer) - 5" "requestBody e buffer pg i = Inl p"
  shows "p = InterfaceConversion"
proof -
  from readHeader_ok [OF assms(1,2)] obtain h where h: "readHeader buffer i = Inr h" by blast
  have b: "- 4 \<le> snd h" using readHeader_bound [OF h] .
  let ?pg1 = "pg\<lparr>Backend.MsgType := fst h, Backend.BodyLen := snd h\<rparr>"
  show ?thesis
  proof (cases "int (length buffer) < i + snd h + 5")
    case True
    with assms(3) h show ?thesis by (simp add: requestBody_def)
  next
    case False
    with assms(1) b obtain frame where fr: "slice buffer i (i + snd h + 5) = Inr frame"
      by (auto simp: slice_def)
    obtain pg2 msg err where tr: "translateBackend e ?pg1 frame = (pg2, msg, err)"
      by (cases "translateBackend e ?pg1 frame") auto
    from assms(3) h False fr have "requestFrame e ?pg1 frame = Inl p"
      by (auto simp: requestBody_def bindP_def split: sum.splits)
    with tr show ?thesis
      by (auto simp: requestFrame_def bindP_def storePassword_def storeParse_def storeBind_def
          storeExecute_def split: sum.splits if_splits FrontendMessage.splits)
  qed
qed

lemma requestLoop_panic:
  "requestLoop e buffer pg i = Inl p \<Longrightarrow> 0 \<le> i \<Longrightarrow> p = InterfaceConversion"
proof (induction e buffer pg i rule: requestLoop.induct)
  case (1 e buffer pg i)
  show ?case
  proof (cases "i < int (length buffer) - 5")
    case False
    with "1.prems" show ?thesis by (simp add: requestLoop.simps)
  next
    case True
    show ?thesis
    proof (cases "requestBody e buffer pg i")
      case (Inl q)
      with True "1.prems" have "q = p" by (simp add: requestLoop.simps)
      with requestBody_panic [OF "1.prems"(2) True Inl] show ?thesis by simp
    next
      case (Inr r)
      show ?thesis
      proof (cases r)
        case (Break pg')
        with Inr True "1.prems" show ?thesis by (simp add: requestLoop.simps)
      next
        case (Next pg' i')
        with Inr have "i < i'" using requestBody_progress by blast
        with "1.prems"(2) have "0 \<le> i'" by simp
        moreover from Next Inr True "1.prems"(1) have "requestLoop e buffer pg' i' = Inl p"
          by (simp add: requestLoop.simps)
        ultimately show ?thesis using "1.IH" [OF True Inr Next] by simp
      qed
    qed
  qed
qed

end
